theory Spec2Isabelle
  imports Complex_Main "HOL-Library.Sublist"
begin

section \<open>Values shared by the notebook functions\<close>

text \<open>
  The repository's own Python code is the three helper functions that its notebooks
  define: \<open>print_errors\<close> and \<open>SSE_errors\<close> (time propagation error estimation
  notebook) and \<open>scatter_plot\<close> (Woods-Saxon and Gaussian potential notebooks).
  Everything else in the notebooks is a call into the \<open>siegpy\<close> package, into
  \<open>numpy\<close> or into \<open>matplotlib\<close>.

  Python floats are idealised as real numbers and complex floats as complex numbers;
  rounding is not modelled. The one place where IEEE arithmetic leaves the reals in
  these functions, the division \<open>abs_err / norm\<close> of two \<open>numpy.float64\<close> values
  with a zero divisor, is written out (\<open>np_div\<close>).
\<close>

datatype py_error =
    IndexError
  | ValueError string
  | UnboundLocalError string

type_synonym 'a result = "py_error + 'a"

text \<open>Indexing a sequence with a non-negative index; out of range raises.\<close>

definition getitem :: "'a list \<Rightarrow> nat \<Rightarrow> 'a result" where
  "getitem xs i = (if i < length xs then Inr (xs ! i) else Inl IndexError)"

text \<open>
  The quotient of two \<open>numpy.float64\<close> values. A zero divisor does not raise (numpy
  warns and goes on): the quotient is an infinity, or not-a-number for \<open>0 / 0\<close>.
\<close>

datatype npfloat = Finite real | PosInf | NegInf | NaN

definition np_div :: "real \<Rightarrow> real \<Rightarrow> npfloat" where
  "np_div a b =
     (if b = 0 then (if 0 < a then PosInf else if a < 0 then NegInf else NaN)
      else Finite (a / b))"

text \<open>
  \<open>a - b\<close> on two one-dimensional numpy arrays: elementwise for equal lengths, a
  length-one operand is broadcast, any other pair of shapes raises ValueError (numpy
  appends the two shapes to the message; they are left out here).
\<close>

definition broadcastable :: "'a list \<Rightarrow> 'b list \<Rightarrow> bool" where
  "broadcastable xs ys = (length xs = length ys \<or> length xs = 1 \<or> length ys = 1)"

definition row_diff :: "complex list \<Rightarrow> complex list \<Rightarrow> complex list" where
  "row_diff xs ys =
     (if length xs = length ys then map2 (-) xs ys
      else if length xs = 1 then map (\<lambda>y. hd xs - y) ys
      else map (\<lambda>x. x - hd ys) xs)"

definition np_sub :: "complex list \<Rightarrow> complex list \<Rightarrow> complex list result" where
  "np_sub xs ys =
     (if broadcastable xs ys then Inr (row_diff xs ys)
      else Inl (ValueError ''operands could not be broadcast together''))"

text \<open>\<open>np.abs\<close> on a complex array is the elementwise modulus.\<close>

definition np_abs :: "complex list \<Rightarrow> real list" where
  "np_abs xs = map cmod xs"

text \<open>
  \<open>np.trapz(y, dx=dx)\<close> on a one-dimensional array is
  \<open>(dx * (y[1:] + y[:-1]) / 2.0).sum()\<close>; it is \<open>0.0\<close> for fewer than two samples.
\<close>

definition trapz :: "real list \<Rightarrow> real \<Rightarrow> real" where
  "trapz y dx = sum_list (map2 (\<lambda>a b. dx * (a + b) / 2) (tl y) (butlast y))"

section \<open>Standard output\<close>

text \<open>
  What \<open>print\<close> writes, one item per call. A table row is kept as the three numbers
  that the format string \<open>"{:.2f}   {: .3e}   {: .3e}"\<close> receives; their decimal
  rendering is not modelled.
\<close>

datatype out = Text string | Row real real npfloat

text \<open>
  A computation that prints and may raise: the lines written so far, and the outcome.
  What was printed before an exception stays printed.
\<close>

type_synonym 'a io = "out list \<times> 'a result"

definition io_bind :: "'a io \<Rightarrow> ('a \<Rightarrow> 'b io) \<Rightarrow> 'b io" where
  "io_bind m f =
     (case m of
        (o1, Inl e) \<Rightarrow> (o1, Inl e)
      | (o1, Inr x) \<Rightarrow> (case f x of (o2, r) \<Rightarrow> (o1 @ o2, r)))"

definition io_print :: "out \<Rightarrow> unit io" where
  "io_print x = ([x], Inr ())"


section \<open>print_errors\<close>

text \<open>
  \<^verbatim>\<open>
  def print_errors(exact, siegert_exp, dx):
      title = "  t    abs. error   rel. error"
      line = "-"*len(title)
      print(line)
      print(title)
      print(line)
      for i, t in enumerate(time_grid):
          abs_err = np.trapz(np.abs(exact[i] - siegert_exp[i]), dx=dx)
          norm = np.trapz(np.abs(exact[i]), dx=dx)
          rel_err = abs_err / norm
          print("{:.2f}   {: .3e}   {: .3e}".format(t, abs_err, rel_err))
      print(line)
      print()
  \<close>
  \<open>time_grid\<close> is not a parameter of the function: the name is looked up in the
  notebook's global scope when the loop starts. The model takes the global as its
  first argument. The locals \<open>title\<close> and \<open>line\<close> are the constants
  \<open>table_title\<close> and \<open>table_line\<close>.
\<close>

definition table_title :: string where
  "table_title = ''  t    abs. error   rel. error''"

definition table_line :: string where
  "table_line = replicate (length table_title) CHR ''-''"

text \<open>The body of the loop for index \<open>i\<close> and time \<open>t\<close>: the row it prints, or the exception.\<close>

definition error_row ::
  "complex list list \<Rightarrow> complex list list \<Rightarrow> real \<Rightarrow> nat \<Rightarrow> real \<Rightarrow> out result" where
  "error_row exact siegert_exp dx i t =
     (case getitem exact i of
        Inl e \<Rightarrow> Inl e
      | Inr ex \<Rightarrow>
         (case getitem siegert_exp i of
            Inl e \<Rightarrow> Inl e
          | Inr se \<Rightarrow>
             (case np_sub ex se of
                Inl e \<Rightarrow> Inl e
              | Inr d \<Rightarrow>
                 (let abs_err = trapz (np_abs d) dx;
                      norm = trapz (np_abs ex) dx;
                      rel_err = np_div abs_err norm
                  in Inr (Row t abs_err rel_err)))))"

text \<open>The loop over \<open>enumerate(time_grid)\<close>, from index \<open>i\<close> on.\<close>

fun error_rows ::
  "complex list list \<Rightarrow> complex list list \<Rightarrow> real \<Rightarrow> nat \<Rightarrow> real list \<Rightarrow> unit io" where
  "error_rows exact siegert_exp dx i [] = ([], Inr ())"
| "error_rows exact siegert_exp dx i (t # ts) =
     (case error_row exact siegert_exp dx i t of
        Inl e \<Rightarrow> ([], Inl e)
      | Inr r \<Rightarrow> io_bind (io_print r) (\<lambda>_. error_rows exact siegert_exp dx (Suc i) ts))"

definition print_errors ::
  "real list \<Rightarrow> complex list list \<Rightarrow> complex list list \<Rightarrow> real \<Rightarrow> unit io" where
  "print_errors time_grid exact siegert_exp dx =
     io_bind (io_print (Text table_line)) (\<lambda>_.
     io_bind (io_print (Text table_title)) (\<lambda>_.
     io_bind (io_print (Text table_line)) (\<lambda>_.
     io_bind (error_rows exact siegert_exp dx 0 time_grid) (\<lambda>_.
     io_bind (io_print (Text table_line)) (\<lambda>_.
     io_print (Text ''''))))))"

text \<open>
  The two quantities of a table row as the claim words them: the trapezoidal integral of
  \<open>|exact[i] - siegert_exp[i]|\<close>, and its quotient by the trapezoidal integral of
  \<open>|exact[i]|\<close>.
\<close>

definition abs_error_at :: "complex list list \<Rightarrow> complex list list \<Rightarrow> real \<Rightarrow> nat \<Rightarrow> real" where
  "abs_error_at exact siegert_exp dx i =
     trapz (np_abs (row_diff (exact ! i) (siegert_exp ! i))) dx"

definition rel_error_at :: "complex list list \<Rightarrow> complex list list \<Rightarrow> real \<Rightarrow> nat \<Rightarrow> npfloat" where
  "rel_error_at exact siegert_exp dx i =
     np_div (abs_error_at exact siegert_exp dx i) (trapz (np_abs (exact ! i)) dx)"

definition table_row ::
  "real list \<Rightarrow> complex list list \<Rightarrow> complex list list \<Rightarrow> real \<Rightarrow> nat \<Rightarrow> out" where
  "table_row time_grid exact siegert_exp dx i =
     Row (time_grid ! i) (abs_error_at exact siegert_exp dx i)
         (rel_error_at exact siegert_exp dx i)"

text \<open>The arrays have a row for every index of the time grid, with compatible shapes.\<close>

definition rows_available :: "nat \<Rightarrow> complex list list \<Rightarrow> complex list list \<Rightarrow> bool" where
  "rows_available n exact siegert_exp =
     (n \<le> length exact \<and> n \<le> length siegert_exp \<and>
      list_all (\<lambda>i. broadcastable (exact ! i) (siegert_exp ! i)) [0..<n])"

section \<open>The siegpy objects that the notebook functions use\<close>

text \<open>
  The \<open>siegpy\<close> package itself is not among the files; the notebooks only import it.
  The objects below carry what the notebook functions read from them, as the
  specification words it: a state has a wavenumber, an energy, a parity, a virial and a
  type; a basis set is a container of states with \<open>+\<close> and with filters by type and
  parity.
\<close>

text \<open>Modelled from the spec: the tag of an eigenstate (bound / resonant / antiresonant /
  continuum / unknown); the enumeration is declared in the missing \<open>siegpy\<close> package.
  \<open>Antibound\<close> is added for the \<open>antibounds\<close> attribute that the tutorial
  notebook reads.
\<close>

datatype siegert_type = Bound | Antibound | Resonant | Antiresonant | Continuum | Unknown

text \<open>Modelled from the spec: the parity of a state (even or odd);
  a state may have none.
\<close>

datatype parity = Even | Odd

text \<open>Modelled from the spec: a potential, of which the notebook functions read the width
  only (class \<open>SWPotential\<close> of the missing package).
\<close>

record potential =
  width :: real
  depth :: real

text \<open>Modelled from the spec: an individual eigenstate (classes \<open>SWPSiegert\<close>,
  \<open>SWPContinuum\<close> and \<open>Eigenstate\<close> of the missing package) with the attributes
  the specification lists, the potential it belongs to and the grid that can be assigned
  to it.
\<close>

record state =
  wavenumber :: complex
  energy :: complex
  parity :: "parity option"
  virial :: real
  Siegert_type :: siegert_type
  potential :: potential
  grid :: "real list option"

text \<open>Modelled from the spec: a basis set (classes \<open>BasisSet\<close> and \<open>SWPBasisSet\<close> of
  the missing package) is a container of eigenstates; the notebooks index it, slice it
  and take its length, so it is a sequence.
\<close>

type_synonym basisset = "state list"

text \<open>Modelled from the spec: \<open>a + b\<close> on basis sets (\<open>BasisSet.__add__\<close>, missing), the
  set-like composition: the states of \<open>a\<close> together with the states of \<open>b\<close>.
\<close>

definition add :: "basisset \<Rightarrow> basisset \<Rightarrow> basisset" where
  "add a b = a @ b"

text \<open>Modelled from the spec: \<open>a += b\<close> on basis sets (missing); the value is what the name
  \<open>a\<close> is bound to afterwards.
\<close>

definition iadd :: "basisset \<Rightarrow> basisset \<Rightarrow> basisset" where
  "iadd a b = add a b"

text \<open>Modelled from the spec: the attribute \<open>bounds\<close> of the missing basis set class,
  filtering by type: the bound states of the basis set.\<close>

definition bounds :: "basisset \<Rightarrow> basisset" where
  "bounds b = filter (\<lambda>s. Siegert_type s = Bound) b"

text \<open>Modelled from the spec: the attribute \<open>resonants\<close> of the missing basis set class,
  filtering by type: the resonant states of the basis set.\<close>

definition resonants :: "basisset \<Rightarrow> basisset" where
  "resonants b = filter (\<lambda>s. Siegert_type s = Resonant) b"

text \<open>Modelled from the spec: the attribute \<open>continuum\<close> of the missing basis set class,
  filtering by type: the continuum states of the basis set.\<close>

definition continuum :: "basisset \<Rightarrow> basisset" where
  "continuum b = filter (\<lambda>s. Siegert_type s = Continuum) b"

text \<open>Modelled from the spec: the attribute \<open>unknown\<close> of the missing basis set class,
  filtering by type: the states of unknown type of the basis set.\<close>

definition unknown :: "basisset \<Rightarrow> basisset" where
  "unknown b = filter (\<lambda>s. Siegert_type s = Unknown) b"

text \<open>Modelled from the spec: the attribute \<open>virials\<close> of the missing basis set class,
  the virials of its states in order.\<close>

definition virials :: "basisset \<Rightarrow> real list" where
  "virials b = map virial b"

text \<open>Modelled from the spec: the attribute \<open>wavenumbers\<close> of the missing basis set
  class, the wavenumbers of its states in order.\<close>

definition wavenumbers :: "basisset \<Rightarrow> complex list" where
  "wavenumbers b = map wavenumber b"

text \<open>Modelled from the spec: the attribute \<open>energies\<close> of the missing basis set class,
  the energies of its states in order.\<close>

definition energies :: "basisset \<Rightarrow> complex list" where
  "energies b = map energy b"



section \<open>SSE_errors\<close>





section \<open>scatter_plot\<close>

text \<open>
  \<open>np.log10\<close> on a float: minus infinity at zero and not-a-number below (numpy warns
  and goes on).
\<close>

definition np_log10 :: "real \<Rightarrow> npfloat" where
  "np_log10 x = (if 0 < x then Finite (log 10 x) else if x = 0 then NegInf else NaN)"

text \<open>The smaller and the larger of two floats as numpy takes them: not-a-number wins.\<close>

fun np_minimum :: "npfloat \<Rightarrow> npfloat \<Rightarrow> npfloat" where
  "np_minimum NaN y = NaN"
| "np_minimum x NaN = NaN"
| "np_minimum NegInf y = NegInf"
| "np_minimum x NegInf = NegInf"
| "np_minimum PosInf y = y"
| "np_minimum x PosInf = x"
| "np_minimum (Finite a) (Finite b) = Finite (min a b)"

fun np_maximum :: "npfloat \<Rightarrow> npfloat \<Rightarrow> npfloat" where
  "np_maximum NaN y = NaN"
| "np_maximum x NaN = NaN"
| "np_maximum PosInf y = PosInf"
| "np_maximum x PosInf = PosInf"
| "np_maximum NegInf y = y"
| "np_maximum x NegInf = x"
| "np_maximum (Finite a) (Finite b) = Finite (max a b)"

text \<open>\<open>np.min\<close> and \<open>np.max\<close> of an array; an empty array raises ValueError.\<close>

definition np_min :: "npfloat list \<Rightarrow> npfloat result" where
  "np_min xs =
     (case xs of
        [] \<Rightarrow> Inl (ValueError
                ''zero-size array to reduction operation minimum which has no identity'')
      | x # rest \<Rightarrow> Inr (foldl np_minimum x rest))"

definition np_max :: "npfloat list \<Rightarrow> npfloat result" where
  "np_max xs =
     (case xs of
        [] \<Rightarrow> Inl (ValueError
                ''zero-size array to reduction operation maximum which has no identity'')
      | x # rest \<Rightarrow> Inr (foldl np_maximum x rest))"

text \<open>
  The calls into \<open>matplotlib\<close> are kept as the list of drawing commands they amount
  to, in order. A scatter command holds the points, the decimal logarithms of their
  virials (the colour scale maps them to colours), the marker and the number in the
  legend label \<open>$V_i$\<close>. The colour bar holds the two ends of the colour scale.
\<close>

datatype plot_cmd =
    Axhline real
  | Axvline real
  | Scatter "complex list" "npfloat list" string nat
  | Colorbar npfloat npfloat
  | SetXlabel string
  | SetYlabel string
  | SetXlim "real \<times> real"
  | SetXticklabels
  | SetYlim "real \<times> real"
  | SetYticklabels
  | SetTitle string
  | Legend
  | Savefig string
  | ShowPlot

text \<open>
  \<^verbatim>\<open>
  def scatter_plot(data_kwd, basissets, xlim=None, ylim=None, title=None,
                   file_save=None, show_unknown=False):
      fig = plt.figure()
      ax = fig.add_subplot(111)
      ax.axhline(0, color='black', lw=1)
      ax.axvline(0, color='black', lw=1)
      allstates = BasisSet()
      for b in basissets:
          allstates += b
      vmin = np.min(np.log10(allstates.virials))
      vmax = np.max(np.log10(allstates.virials))
      norm = matplotlib.colors.Normalize(vmin=vmin, vmax=vmax)
      markers = ["o", "s", "d", "^"]
      for i, b in enumerate(basissets):
          to_plot = b.bounds + b.resonants + b.continuum
          if show_unknown is True or len(b.unknown) == len(b):
              to_plot += b.unknown
          virials = np.log10(to_plot.virials[::-1])
          if data_kwd == 'wavenumbers':
              data_label = 'k'
              plot_data = to_plot.wavenumbers[::-1]
          elif data_kwd == 'energies':
              data_label = 'E'
              plot_data = to_plot.energies[::-1]
          else:
              raise ValueError("data_kwd must be equal to 'wavenumbers' "
                               "or 'energies' (here '{}')".format(data_kwd))
          if plot_data != []:
              c = plt.cm.CMRmap(norm(virials))
              ax.scatter(np.real(plot_data), np.imag(plot_data), c=c,
                         marker=markers[i], s=30, label="$V_{}$".format(i+1))
      m = cm.ScalarMappable(cmap=plt.cm.CMRmap, norm=norm)
      m.set_array([])
      plt.colorbar(m, label="$log_{10}$(|virial|)")
      ax.set_xlabel("Re[${}$]".format(data_label))
      ax.set_ylabel("Im[${}$]".format(data_label))
      if xlim is not None:
          ax.set_xlim(xlim)
      ax.set_xticklabels(ax.get_xticks())
      if ylim is not None:
          ax.set_ylim(ylim)
      ax.set_yticklabels(ax.get_yticks())
      if title is not None:
          ax.set_title(title)
      plt.legend()
      if file_save is not None:
          fig.savefig(file_save)
      plt.show()
  \<close>
\<close>

definition markers :: "string list" where
  "markers = [''o'', ''s'', ''d'', ''^'']"

text \<open>The message of the ValueError that reports the offending value of \<open>data_kwd\<close>.\<close>

definition data_kwd_message :: "string \<Rightarrow> string" where
  "data_kwd_message data_kwd =
     ''data_kwd must be equal to 'wavenumbers' or 'energies' (here ''
       @ [CHR 0x27] @ data_kwd @ [CHR 0x27] @ '')''"

text \<open>The states of one basis set that are plotted.\<close>

definition to_plot :: "bool \<Rightarrow> basisset \<Rightarrow> basisset" where
  "to_plot show_unknown b =
     (let sel = add (add (bounds b) (resonants b)) (continuum b)
      in if show_unknown \<or> length (unknown b) = length b then iadd sel (unknown b) else sel)"

text \<open>
  The branch on \<open>data_kwd\<close>: the axis label and the data to plot, or the
  ValueError.
\<close>

definition select_data :: "string \<Rightarrow> basisset \<Rightarrow> (string \<times> complex list) result" where
  "select_data data_kwd sel =
     (if data_kwd = ''wavenumbers'' then Inr (''k'', rev (wavenumbers sel))
      else if data_kwd = ''energies'' then Inr (''E'', rev (energies sel))
      else Inl (ValueError (data_kwd_message data_kwd)))"

text \<open>
  The loop over \<open>enumerate(basissets)\<close> from index \<open>i\<close> on. It carries the local
  \<open>data_label\<close>, unbound before the first pass, and the drawing commands so far.
\<close>

fun scatter_loop ::
  "string \<Rightarrow> bool \<Rightarrow> nat \<Rightarrow> basisset list \<Rightarrow> string option \<times> plot_cmd list
     \<Rightarrow> (string option \<times> plot_cmd list) result" where
  "scatter_loop data_kwd show_unknown i [] acc = Inr acc"
| "scatter_loop data_kwd show_unknown i (b # bs) (data_label, cmds) =
     (let sel = to_plot show_unknown b;
          vs = map np_log10 (rev (virials sel))
      in case select_data data_kwd sel of
           Inl e \<Rightarrow> Inl e
         | Inr (data_label, plot_data) \<Rightarrow>
             if plot_data \<noteq> []
             then (case getitem markers i of
                     Inl e \<Rightarrow> Inl e
                   | Inr marker \<Rightarrow>
                       scatter_loop data_kwd show_unknown (Suc i) bs
                         (Some data_label, cmds @ [Scatter plot_data vs marker (i + 1)]))
             else scatter_loop data_kwd show_unknown (Suc i) bs (Some data_label, cmds))"

text \<open>
  Everything up to the second \<open>ax.set_ylabel\<close>: the axes, the colour scale, the loop,
  the colour bar and the axis labels, which read \<open>data_label\<close>.
\<close>

definition scatter_plot_body :: "string \<Rightarrow> basisset list \<Rightarrow> bool \<Rightarrow> plot_cmd list result" where
  "scatter_plot_body data_kwd basissets show_unknown =
     (let allstates = foldl iadd [] basissets in
      case np_min (map np_log10 (virials allstates)) of
        Inl e \<Rightarrow> Inl e
      | Inr vmin \<Rightarrow>
         (case np_max (map np_log10 (virials allstates)) of
            Inl e \<Rightarrow> Inl e
          | Inr vmax \<Rightarrow>
             (case scatter_loop data_kwd show_unknown 0 basissets (None, [Axhline 0, Axvline 0]) of
                Inl e \<Rightarrow> Inl e
              | Inr (None, cmds) \<Rightarrow>
                 Inl (UnboundLocalError
                       ''local variable 'data_label' referenced before assignment'')
              | Inr (Some data_label, cmds) \<Rightarrow>
                 Inr (cmds @ [Colorbar vmin vmax,
                              SetXlabel (''Re[$'' @ data_label @ ''$]''),
                              SetYlabel (''Im[$'' @ data_label @ ''$]'')]))))"

text \<open>The commands for the optional axis limits and the title.\<close>

definition limits_and_title ::
  "(real \<times> real) option \<Rightarrow> (real \<times> real) option \<Rightarrow> string option \<Rightarrow> plot_cmd list" where
  "limits_and_title xlim ylim title =
     (case xlim of None \<Rightarrow> [] | Some l \<Rightarrow> [SetXlim l]) @ [SetXticklabels]
     @ (case ylim of None \<Rightarrow> [] | Some l \<Rightarrow> [SetYlim l]) @ [SetYticklabels]
     @ (case title of None \<Rightarrow> [] | Some t \<Rightarrow> [SetTitle t])"

text \<open>\<open>scatter_plot\<close> as the Woods-Saxon notebook defines it.\<close>

definition scatter_plot ::
  "string \<Rightarrow> basisset list \<Rightarrow> (real \<times> real) option \<Rightarrow> (real \<times> real) option \<Rightarrow> string option
     \<Rightarrow> string option \<Rightarrow> bool \<Rightarrow> plot_cmd list result" where
  "scatter_plot data_kwd basissets xlim ylim title file_save show_unknown =
     (case scatter_plot_body data_kwd basissets show_unknown of
        Inl e \<Rightarrow> Inl e
      | Inr cmds \<Rightarrow>
          Inr (cmds @ limits_and_title xlim ylim title @ [Legend]
                 @ (case file_save of None \<Rightarrow> [] | Some f \<Rightarrow> [Savefig f]) @ [ShowPlot]))"

text \<open>
  \<open>scatter_plot\<close> as the Gaussian potentials notebook defines it: the same text, but
  the figure is saved before \<open>plt.legend()\<close> is called.
\<close>

definition scatter_plot_gaussian ::
  "string \<Rightarrow> basisset list \<Rightarrow> (real \<times> real) option \<Rightarrow> (real \<times> real) option \<Rightarrow> string option
     \<Rightarrow> string option \<Rightarrow> bool \<Rightarrow> plot_cmd list result" where
  "scatter_plot_gaussian data_kwd basissets xlim ylim title file_save show_unknown =
     (case scatter_plot_body data_kwd basissets show_unknown of
        Inl e \<Rightarrow> Inl e
      | Inr cmds \<Rightarrow>
          Inr (cmds @ limits_and_title xlim ylim title
                 @ (case file_save of None \<Rightarrow> [] | Some f \<Rightarrow> [Savefig f]) @ [Legend, ShowPlot]))"

section \<open>Sample values\<close>

text \<open>A bound state and a library instance on which the functions can be evaluated.\<close>

definition sample_state :: state where
  "sample_state =
     \<lparr>wavenumber = 0, energy = - 1, parity = Some Even, virial = 1 / 1000,
      Siegert_type = Bound, potential = \<lparr>width = 2, depth = 10\<rparr>, grid = None\<rparr>"




section \<open>Properties of print_errors\<close>

lemma io_bind_print [simp]:
  "io_bind (io_print x) f = (x # fst (f ()), snd (f ()))"
  by (simp add: io_bind_def io_print_def split: prod.splits)




lemma error_row_ok:
  assumes "i < length exact" "i < length siegert_exp"
    and "broadcastable (exact ! i) (siegert_exp ! i)"
  shows "error_row exact siegert_exp dx i t =
           Inr (Row t (abs_error_at exact siegert_exp dx i) (rel_error_at exact siegert_exp dx i))"
  using assms
  by (simp add: error_row_def getitem_def np_sub_def abs_error_at_def rel_error_at_def Let_def)

lemma error_rows_ok:
  assumes "i + length ts \<le> length exact" "i + length ts \<le> length siegert_exp"
    and "\<forall>j. i \<le> j \<and> j < i + length ts \<longrightarrow> broadcastable (exact ! j) (siegert_exp ! j)"
  shows "error_rows exact siegert_exp dx i ts =
           (map (\<lambda>k. Row (ts ! k) (abs_error_at exact siegert_exp dx (i + k))
                                    (rel_error_at exact siegert_exp dx (i + k)))
                [0..<length ts], Inr ())"
  using assms
proof (induction ts arbitrary: i)
  case Nil
  then show ?case by simp
next
  case (Cons t ts)
  have row: "error_row exact siegert_exp dx i t =
      Inr (Row t (abs_error_at exact siegert_exp dx i) (rel_error_at exact siegert_exp dx i))"
    using Cons.prems by (intro error_row_ok) auto
  have rest: "error_rows exact siegert_exp dx (Suc i) ts =
      (map (\<lambda>k. Row (ts ! k) (abs_error_at exact siegert_exp dx (Suc i + k))
                               (rel_error_at exact siegert_exp dx (Suc i + k)))
           [0..<length ts], Inr ())"
    using Cons.prems by (intro Cons.IH) auto
  have shift: "[0..<length (t # ts)] = 0 # map Suc [0..<length ts]"
    by (simp add: upt_conv_Cons map_Suc_upt del: upt_Suc)
  show ?case
    unfolding shift using row rest by (simp add: comp_def)
qed

text \<open>
  C7, amended. Whenever both arrays have a row for every index of the global
  \<open>time_grid\<close> and the paired rows have shapes that numpy can subtract,
  \<open>print_errors\<close> returns normally and prints, between the three opening lines and
  the two closing lines, exactly one row per entry of the global \<open>time_grid\<close> (which
  is no parameter of the function): row \<open>i\<close> holds the time, the trapezoidal integral
  of \<open>|exact[i] - siegert_exp[i]|\<close> with step \<open>dx\<close>, and that integral divided by
  the trapezoidal integral of \<open>|exact[i]|\<close> with step \<open>dx\<close>.
\<close>

theorem print_errors_rows:
  assumes "rows_available (length time_grid) exact siegert_exp"
  shows "print_errors time_grid exact siegert_exp dx =
           ([Text table_line, Text table_title, Text table_line]
              @ map (table_row time_grid exact siegert_exp dx) [0..<length time_grid]
              @ [Text table_line, Text ''''],
            Inr ())"
proof -
  have "error_rows exact siegert_exp dx 0 time_grid =
          (map (table_row time_grid exact siegert_exp dx) [0..<length time_grid], Inr ())"
    using assms error_rows_ok [of 0 time_grid exact siegert_exp dx]
    by (simp add: rows_available_def list_all_iff table_row_def)
  then show ?thesis
    by (simp add: print_errors_def io_bind_def io_print_def)
qed

text \<open>
  The amended C7 on a time grid of two entries and two arrays of two rows: the table
  has two rows, with absolute errors \<open>1/4\<close> and relative errors \<open>1/3\<close> and
  \<open>1/7\<close>.
\<close>

theorem print_errors_rows_witness:
  "rows_available (length [0, 1/4 :: real]) [[1, 2], [3, 4]] [[1, 1], [3, 3]] \<and>
   print_errors [0, 1/4] [[1, 2], [3, 4]] [[1, 1], [3, 3]] (1/2) =
     ([Text table_line, Text table_title, Text table_line,
       Row 0 (1/4) (Finite (1/3)), Row (1/4) (1/4) (Finite (1/7)),
       Text table_line, Text ''''], Inr ())"
proof -
  have h: "rows_available (length [0, 1/4 :: real]) [[1, 2], [3, 4]] [[1, 1], [3, 3]]"
    by (simp add: rows_available_def broadcastable_def upt_rec)
  show ?thesis
    using h print_errors_rows [OF h, of "1/2"]
    by (simp add: table_row_def abs_error_at_def rel_error_at_def row_diff_def np_abs_def
        trapz_def np_div_def upt_rec)
qed

text \<open>
  C7 as it is worded fails when an array has fewer rows than the global \<open>time_grid\<close>
  has entries, which happens when \<open>SSE_errors\<close> is called with a time grid shorter
  than the global one. With a global grid of two times and arrays of one row, one row is
  printed, then \<open>exact[1]\<close> raises IndexError; the closing lines are not printed.
\<close>

theorem print_errors_rows_counterexample:
  "length [0, 1/4 :: real] = 2 \<and>
   print_errors [0, 1/4] [[1, 2]] [[1, 1]] 1 =
     ([Text table_line, Text table_title, Text table_line, Row 0 (1/2) (Finite (1/3))],
      Inl IndexError)"
  by (simp add: print_errors_def error_row_def getitem_def np_sub_def broadcastable_def
      row_diff_def np_abs_def trapz_def np_div_def io_bind_def io_print_def)

section \<open>Properties of SSE_errors\<close>














section \<open>Properties of scatter_plot\<close>

lemma allstates_concat: "foldl iadd acc basissets = acc @ concat basissets"
  by (induction basissets arbitrary: acc) (simp_all add: iadd_def add_def)

lemma np_min_Inr: "xs \<noteq> [] \<Longrightarrow> \<exists>v. np_min xs = Inr v"
  by (cases xs) (simp_all add: np_min_def)

lemma np_max_Inr: "xs \<noteq> [] \<Longrightarrow> \<exists>v. np_max xs = Inr v"
  by (cases xs) (simp_all add: np_max_def)

lemma scatter_loop_bad_kwd:
  assumes "data_kwd \<noteq> ''wavenumbers''" "data_kwd \<noteq> ''energies''" "basissets \<noteq> []"
  shows "scatter_loop data_kwd show_unknown i basissets acc
           = Inl (ValueError (data_kwd_message data_kwd))"
  using assms by (cases basissets; cases acc) (simp_all add: select_data_def Let_def)

lemma scatter_loop_good_kwd:
  assumes "data_kwd = ''wavenumbers'' \<or> data_kwd = ''energies''"
  shows "scatter_loop data_kwd show_unknown i basissets acc
           \<noteq> Inl (ValueError (data_kwd_message k))"
  using assms
proof (induction basissets arbitrary: i acc)
  case Nil
  then show ?case by simp
next
  case (Cons b bs)
  obtain l c where acc: "acc = (l, c)" by (cases acc)
  show ?case
    using Cons.prems Cons.IH
    by (auto simp: acc select_data_def Let_def getitem_def split: sum.splits if_splits)
qed

lemma body_empty:
  assumes "concat basissets = []"
  shows "scatter_plot_body data_kwd basissets show_unknown =
     Inl (ValueError ''zero-size array to reduction operation minimum which has no identity'')"
proof -
  from assms have "foldl iadd [] basissets = []"
    by (simp only: allstates_concat append_Nil)
  then show ?thesis
    by (simp add: scatter_plot_body_def virials_def np_min_def)
qed

lemma body_data_kwd:
  assumes "concat basissets \<noteq> []"
  shows "scatter_plot_body data_kwd basissets show_unknown
           = Inl (ValueError (data_kwd_message data_kwd))
         \<longleftrightarrow> data_kwd \<noteq> ''wavenumbers'' \<and> data_kwd \<noteq> ''energies''"
proof -
  from assms have ne: "basissets \<noteq> []" by auto
  from assms have "map np_log10 (virials (foldl iadd [] basissets)) \<noteq> []"
    by (simp add: allstates_concat virials_def)
  then obtain vmin vmax where
    v: "np_min (map np_log10 (virials (foldl iadd [] basissets))) = Inr vmin"
       "np_max (map np_log10 (virials (foldl iadd [] basissets))) = Inr vmax"
    using np_min_Inr np_max_Inr by blast
  show ?thesis
  proof (cases "data_kwd \<noteq> ''wavenumbers'' \<and> data_kwd \<noteq> ''energies''")
    case True
    then show ?thesis
      using ne v by (simp add: scatter_plot_body_def scatter_loop_bad_kwd)
  next
    case False
    then have good: "data_kwd = ''wavenumbers'' \<or> data_kwd = ''energies''" by blast
    have "UnboundLocalError m \<noteq> ValueError n" for m n by simp
    then show ?thesis
      using False v scatter_loop_good_kwd [OF good, of show_unknown 0 basissets
          "(None, [Axhline 0, Axvline 0])" data_kwd]
      by (auto simp: scatter_plot_body_def split: sum.splits option.splits prod.splits)
  qed
qed

lemma zero_size_not_data_kwd:
  "''zero-size array to reduction operation minimum which has no identity'' \<noteq> data_kwd_message k"
  by (simp add: data_kwd_message_def)

lemma scatter_plot_Inl:
  "scatter_plot data_kwd basissets xlim ylim title file_save show_unknown = Inl e
     \<longleftrightarrow> scatter_plot_body data_kwd basissets show_unknown = Inl e"
  by (simp add: scatter_plot_def split: sum.splits)

lemma scatter_plot_gaussian_Inl:
  "scatter_plot_gaussian data_kwd basissets xlim ylim title file_save show_unknown = Inl e
     \<longleftrightarrow> scatter_plot_body data_kwd basissets show_unknown = Inl e"
  by (simp add: scatter_plot_gaussian_def split: sum.splits)

text \<open>
  C6, amended. For every call to \<open>scatter_plot\<close> (in either notebook) in which the
  basis sets hold at least one state between them, the ValueError that reports the
  offending value of \<open>data_kwd\<close> is raised if and only if \<open>data_kwd\<close> is neither
  \<open>'wavenumbers'\<close> nor \<open>'energies'\<close>. When they hold no state, and so when
  \<open>basissets\<close> is empty, the call raises numpy's ValueError for the minimum of an
  empty array before the loop is reached, whatever \<open>data_kwd\<close> is, and that is not the
  ValueError about \<open>data_kwd\<close>.
\<close>

theorem scatter_plot_data_kwd_check:
  "(concat basissets \<noteq> [] \<longrightarrow>
      (scatter_plot data_kwd basissets xlim ylim title file_save show_unknown
         = Inl (ValueError (data_kwd_message data_kwd))
       \<longleftrightarrow> data_kwd \<noteq> ''wavenumbers'' \<and> data_kwd \<noteq> ''energies'') \<and>
      (scatter_plot_gaussian data_kwd basissets xlim ylim title file_save show_unknown
         = Inl (ValueError (data_kwd_message data_kwd))
       \<longleftrightarrow> data_kwd \<noteq> ''wavenumbers'' \<and> data_kwd \<noteq> ''energies'')) \<and>
   (concat basissets = [] \<longrightarrow>
      scatter_plot data_kwd basissets xlim ylim title file_save show_unknown
        = Inl (ValueError ''zero-size array to reduction operation minimum which has no identity'') \<and>
      scatter_plot_gaussian data_kwd basissets xlim ylim title file_save show_unknown
        = Inl (ValueError ''zero-size array to reduction operation minimum which has no identity'') \<and>
      ''zero-size array to reduction operation minimum which has no identity''
        \<noteq> data_kwd_message data_kwd)"
  using body_data_kwd [of basissets data_kwd show_unknown]
    body_empty [of basissets data_kwd show_unknown] zero_size_not_data_kwd [of data_kwd]
  by (simp add: scatter_plot_Inl scatter_plot_gaussian_Inl)

text \<open>
  The amended C6 on one basis set of one state, with a wrong and with a right keyword,
  and on the empty list of basis sets.
\<close>

theorem scatter_plot_data_kwd_check_witness:
  "concat [[sample_state]] \<noteq> [] \<and>
   scatter_plot ''foo'' [[sample_state]] None None None None False
     = Inl (ValueError (data_kwd_message ''foo'')) \<and>
   scatter_plot ''energies'' [[sample_state]] None None None None False
     \<noteq> Inl (ValueError (data_kwd_message ''energies'')) \<and>
   concat ([] :: basisset list) = [] \<and>
   scatter_plot ''foo'' [] None None None None False
     = Inl (ValueError ''zero-size array to reduction operation minimum which has no identity'')"
  using scatter_plot_data_kwd_check [of "[[sample_state]]" "''foo''" None None None None False]
    scatter_plot_data_kwd_check [of "[[sample_state]]" "''energies''" None None None None False]
    scatter_plot_data_kwd_check [of "[]" "''foo''" None None None None False]
  by simp

text \<open>
  C6 as it is worded fails on a list of basis sets that is not empty but holds no
  state: with one empty basis set and the keyword \<open>'foo'\<close>, the ValueError raised is
  numpy's, not the one that reports \<open>'foo'\<close>.
\<close>

theorem scatter_plot_data_kwd_counterexample:
  "[[]] \<noteq> ([] :: basisset list) \<and>
   \<not> (scatter_plot ''foo'' [[]] None None None None False
        = Inl (ValueError (data_kwd_message ''foo''))
      \<longleftrightarrow> ''foo'' \<noteq> ''wavenumbers'' \<and> ''foo'' \<noteq> ''energies'')"
  by (simp add: scatter_plot_def scatter_plot_body_def iadd_def add_def virials_def np_min_def
      data_kwd_message_def)

end
